theory Spec2Isabelle
  imports Main "HOL-Library.Sublist"
begin

section \<open>The screenshot web service of gowitness (cmd/server.go)\<close>

text \<open>
  The file under verification holds one HTTP handler. It reads the query parameters
  \<open>url\<close>, \<open>width\<close> and \<open>height\<close>, validates them, asks the Chrome backend for a
  screenshot and writes either the PNG as it came or a resized JPEG.

  Go strings are byte sequences, and so is \<open>string\<close> here. The functions of Go's standard
  library that decide the handler's branches on strings (\<open>strings.TrimSpace\<close>,
  \<open>strings.HasPrefix\<close>, \<open>strconv.Atoi\<close>, \<open>url.Values.Get\<close>, \<open>http.Error\<close> and the
  \<open>http.ResponseWriter\<close> they write to) are written out. The collaborators whose
  results the handler only passes on (\<open>url.Parse\<close>, \<open>chrm.Screenshot\<close>,
  \<open>image.Decode\<close>, \<open>imaging.Fit\<close>, \<open>jpeg.Encode\<close>) and the global
  \<open>options.AllowInsecureURIs\<close> are fields of an environment, and the theorems hold for
  every environment.
\<close>

subsection \<open>strings.TrimSpace\<close>

text \<open>
  \<open>TrimSpace\<close> removes leading and trailing white space as \<open>unicode.IsSpace\<close> defines it:
  the code points U+0009..U+000D, U+0020, U+0085, U+00A0, U+1680, U+2000..U+200A, U+2028,
  U+2029, U+202F, U+205F and U+3000. On a byte string a code point is its UTF-8 encoding;
  a byte sequence that is not the encoding of one of them decodes to some other rune (or to
  \<open>utf8.RuneError\<close>), which is not a space.
\<close>

definition space_encodings :: "string list" where
  "space_encodings =
     [[CHR 0x09], [CHR 0x0A], [CHR 0x0B], [CHR 0x0C], [CHR 0x0D], [CHR 0x20],
      [CHR 0xC2, CHR 0x85], [CHR 0xC2, CHR 0xA0],
      [CHR 0xE1, CHR 0x9A, CHR 0x80],
      [CHR 0xE2, CHR 0x80, CHR 0x80], [CHR 0xE2, CHR 0x80, CHR 0x81],
      [CHR 0xE2, CHR 0x80, CHR 0x82], [CHR 0xE2, CHR 0x80, CHR 0x83],
      [CHR 0xE2, CHR 0x80, CHR 0x84], [CHR 0xE2, CHR 0x80, CHR 0x85],
      [CHR 0xE2, CHR 0x80, CHR 0x86], [CHR 0xE2, CHR 0x80, CHR 0x87],
      [CHR 0xE2, CHR 0x80, CHR 0x88], [CHR 0xE2, CHR 0x80, CHR 0x89],
      [CHR 0xE2, CHR 0x80, CHR 0x8A],
      [CHR 0xE2, CHR 0x80, CHR 0xA8], [CHR 0xE2, CHR 0x80, CHR 0xA9],
      [CHR 0xE2, CHR 0x80, CHR 0xAF],
      [CHR 0xE2, CHR 0x81, CHR 0x9F],
      [CHR 0xE3, CHR 0x80, CHR 0x80]]"

definition leading_space :: "string \<Rightarrow> nat" where
  \<comment> \<open>the width in bytes of a white-space rune at the start of the string, 0 when there is none\<close>
  "leading_space s =
     (case List.find (\<lambda>e. prefix e s) space_encodings of None \<Rightarrow> 0 | Some e \<Rightarrow> length e)"

definition trailing_space :: "string \<Rightarrow> nat" where
  \<comment> \<open>the width in bytes of a white-space rune at the end of the string, 0 when there is none\<close>
  "trailing_space s =
     (case List.find (\<lambda>e. suffix e s) space_encodings of None \<Rightarrow> 0 | Some e \<Rightarrow> length e)"

lemma leading_space_le: "leading_space s \<le> length s"
  by (auto simp: leading_space_def prefix_def find_Some_iff split: option.splits)

lemma trailing_space_le: "trailing_space s \<le> length s"
  by (auto simp: trailing_space_def suffix_def find_Some_iff split: option.splits)

function TrimLeft :: "string \<Rightarrow> string" where
  "TrimLeft s =
     (if leading_space s = 0 then s else TrimLeft (drop (leading_space s) s))"
  by pat_completeness auto
termination
proof (relation "measure length")
  show "wf (measure length)" by simp
next
  fix s :: string
  assume "leading_space s \<noteq> 0"
  moreover have "leading_space s \<le> length s" by (rule leading_space_le)
  ultimately show "(drop (leading_space s) s, s) \<in> measure length" by simp
qed

function TrimRight :: "string \<Rightarrow> string" where
  "TrimRight s =
     (if trailing_space s = 0 then s else TrimRight (take (length s - trailing_space s) s))"
  by pat_completeness auto
termination
proof (relation "measure length")
  show "wf (measure length)" by simp
next
  fix s :: string
  assume "trailing_space s \<noteq> 0"
  moreover have "trailing_space s \<le> length s" by (rule trailing_space_le)
  ultimately show "(take (length s - trailing_space s) s, s) \<in> measure length" by simp
qed

declare TrimLeft.simps [simp del] TrimRight.simps [simp del]

definition TrimSpace :: "string \<Rightarrow> string" where
  "TrimSpace s = TrimRight (TrimLeft s)"

subsection \<open>strings.HasPrefix, strconv.Atoi\<close>

definition HasPrefix :: "string \<Rightarrow> string \<Rightarrow> bool" where
  \<comment> \<open>\<open>len(s) >= len(prefix) && s[:len(prefix)] == prefix\<close>\<close>
  "HasPrefix s p = (length p \<le> length s \<and> take (length p) s = p)"

datatype NumError = ErrSyntax | ErrRange

definition is_digit :: "char \<Rightarrow> bool" where
  "is_digit c = ((48::nat) \<le> of_char c \<and> of_char c \<le> (57::nat))"

definition digit_value :: "char \<Rightarrow> int" where
  "digit_value c = int (of_char c) - 48"

definition intSize :: nat where
  \<comment> \<open>the width of Go's \<open>int\<close> on the 64-bit platforms the server is built for\<close>
  "intSize = 64"

definition Atoi :: "string \<Rightarrow> NumError + int" where
  \<comment> \<open>\<open>strconv.Atoi\<close>: an optional sign, then decimal digits only, within the range of
      \<open>int\<close>. Go returns a number beside the error (0, or the nearest bound); the handler
      overwrites it with 0 whenever the error is set, so the error stands alone here.\<close>
  "Atoi s =
     (case s of
        [] \<Rightarrow> Inl ErrSyntax
      | c # cs \<Rightarrow>
          (let digits = (if c = CHR ''-'' \<or> c = CHR ''+'' then cs else s) in
           if digits = [] then Inl ErrSyntax
           else if list_ex (\<lambda>d. \<not> is_digit d) digits then Inl ErrSyntax
           else
             (let n = foldl (\<lambda>a d. a * 10 + digit_value d) 0 digits in
              if c = CHR ''-''
              then (if 2 ^ (intSize - 1) < n then Inl ErrRange else Inr (- n))
              else (if 2 ^ (intSize - 1) \<le> n then Inl ErrRange else Inr n))))"

subsection \<open>The request: url.Values and Get\<close>

type_synonym Values = "string \<rightharpoonup> string list"

definition Get :: "Values \<Rightarrow> string \<Rightarrow> string" where
  \<comment> \<open>the first value of the key, the empty string when the key has none\<close>
  "Get v key = (case v key of None \<Rightarrow> [] | Some [] \<Rightarrow> [] | Some (x # _) \<Rightarrow> x)"

record Request =
  Query :: Values

subsection \<open>http.ResponseWriter and http.Error\<close>

text \<open>
  The writer holds the header map the handler edits, the status line and headers once they
  have been sent (\<open>wrote\<close>), and the body bytes handed to \<open>Write\<close>. As in \<open>net/http\<close>,
  the first \<open>WriteHeader\<close> fixes status and headers; a later one is dropped, and so is a
  later change of the header map. \<open>Write\<close> sends status 200 first when nothing was sent yet.
\<close>

type_synonym HeaderMap = "string \<rightharpoonup> string list"

record ResponseWriter =
  Header :: HeaderMap
  wrote :: "(int \<times> HeaderMap) option"
  body :: string

definition newResponse :: ResponseWriter where
  "newResponse = \<lparr>Header = Map.empty, wrote = None, body = []\<rparr>"

abbreviation StatusOK :: int where "StatusOK \<equiv> 200"
abbreviation StatusNotAcceptable :: int where "StatusNotAcceptable \<equiv> 406"
abbreviation StatusInternalServerError :: int where "StatusInternalServerError \<equiv> 500"

definition Header_Set :: "ResponseWriter \<Rightarrow> string \<Rightarrow> string \<Rightarrow> ResponseWriter" where
  "Header_Set w key v = w\<lparr>Header := (Header w)(key \<mapsto> [v])\<rparr>"

definition WriteHeader :: "ResponseWriter \<Rightarrow> int \<Rightarrow> ResponseWriter" where
  "WriteHeader w code =
     (case wrote w of
        None \<Rightarrow> w\<lparr>wrote := Some (code, Header w)\<rparr>
      | Some _ \<Rightarrow> w)"

definition Write :: "ResponseWriter \<Rightarrow> string \<Rightarrow> ResponseWriter" where
  "Write w data =
     (let w' = (case wrote w of None \<Rightarrow> WriteHeader w StatusOK | Some _ \<Rightarrow> w)
      in w'\<lparr>body := body w' @ data\<rparr>)"

definition http_Error :: "ResponseWriter \<Rightarrow> string \<Rightarrow> int \<Rightarrow> ResponseWriter" where
  \<comment> \<open>sets the two headers, calls \<open>WriteHeader(code)\<close>, then \<open>fmt.Fprintln(w, error)\<close>.
      (Recent Go versions also delete Content-Length and similar headers first; the handler
      never sets one.)\<close>
  "http_Error w err code =
     Write
       (WriteHeader
          (Header_Set (Header_Set w ''Content-Type'' ''text/plain; charset=utf-8'')
             ''X-Content-Type-Options'' ''nosniff'')
          code)
       (err @ [CHR 0x0A])"

definition status :: "ResponseWriter \<Rightarrow> int option" where
  "status w = map_option fst (wrote w)"

definition sent_header :: "ResponseWriter \<Rightarrow> string \<Rightarrow> string list option" where
  "sent_header w key = (case wrote w of None \<Rightarrow> None | Some (_, h) \<Rightarrow> h key)"

subsection \<open>The collaborators\<close>

text \<open>
  \<open>Rest\<close> stands for the fields of \<open>url.URL\<close> besides the scheme (Opaque, User, Host, Path,
  RawQuery, Fragment); the handler never reads them.
\<close>

record URL =
  Scheme :: string
  Rest :: string

text \<open>
  \<open>jpeg_Encode\<close> writes to the response writer itself: its result is the chunks it handed
  to \<open>Write\<close>, in order, and the error it returned, if any.
\<close>

record 'img env =
  AllowInsecureURIs :: bool
  url_Parse :: "string \<Rightarrow> string + URL"
  Screenshot :: "URL \<Rightarrow> string + string"
  image_Decode :: "string \<Rightarrow> string + 'img"
  imaging_Fit :: "'img \<Rightarrow> int \<Rightarrow> int \<Rightarrow> 'img"
  jpeg_Encode :: "'img \<Rightarrow> string list \<times> string option"

text \<open>The calls the handler makes to its collaborators, in order.\<close>

datatype 'img call =
    ParseCall string
  | ScreenshotCall URL
  | DecodeCall string
  | FitCall 'img int int
  | EncodeCall 'img

subsection \<open>The handler\<close>

definition handler :: "'img env \<Rightarrow> Request \<Rightarrow> ResponseWriter \<Rightarrow> ResponseWriter \<times> 'img call list" where
  "handler env r w =
     (let rawURL = TrimSpace (Get (Query r) ''url'') in
      if rawURL = [] then
        (http_Error w ''url parameter missing. eg ?url=https://google.com'' StatusNotAcceptable, [])
      else
        (let width = (case Atoi (Get (Query r) ''width'') of
                        Inl err \<Rightarrow> 0 | Inr n \<Rightarrow> (if n < 1 then 0 else n));
             height = (case Atoi (Get (Query r) ''height'') of
                        Inl err \<Rightarrow> 0 | Inr n \<Rightarrow> (if n < 1 then 0 else n))
         in
         if 0 < width \<and> height = 0 then
           (http_Error w ''received width option without height argument'' StatusNotAcceptable, [])
         else if 0 < height \<and> width = 0 then
           (http_Error w ''received height option without width argument'' StatusNotAcceptable, [])
         else
           (case url_Parse env rawURL of
              Inl err \<Rightarrow> (http_Error w err StatusInternalServerError, [ParseCall rawURL])
            | Inr url \<Rightarrow>
                (if \<not> AllowInsecureURIs env \<and> \<not> HasPrefix (Scheme url) ''http'' then
                   (http_Error w ''only http(s) urls are accepted'' StatusNotAcceptable,
                    [ParseCall rawURL])
                 else
                   (case Screenshot env url of
                      Inl err \<Rightarrow>
                        (http_Error w err StatusInternalServerError,
                         [ParseCall rawURL, ScreenshotCall url])
                    | Inr buf \<Rightarrow>
                        (if width = 0 then
                           (Write (Header_Set w ''Content-Type'' ''image/png'') buf,
                            [ParseCall rawURL, ScreenshotCall url])
                         else
                           (case image_Decode env buf of
                              Inl err \<Rightarrow>
                                (http_Error w err StatusInternalServerError,
                                 [ParseCall rawURL, ScreenshotCall url, DecodeCall buf])
                            | Inr img \<Rightarrow>
                                (let dstImage = imaging_Fit env img width height;
                                     w1 = Header_Set w ''Content-Type'' ''image/jpeg'';
                                     encoded = jpeg_Encode env dstImage;
                                     w2 = foldl Write w1 (fst encoded);
                                     cs = [ParseCall rawURL, ScreenshotCall url, DecodeCall buf,
                                           FitCall img width height, EncodeCall dstImage]
                                 in
                                 (case snd encoded of
                                    Some err \<Rightarrow> (http_Error w2 err StatusInternalServerError, cs)
                                  | None \<Rightarrow> (w2, cs))))))))))"

subsection \<open>The validation rules as the specification words them\<close>

text \<open>
  The specification lists six rules, applied in order, the first failing rule deciding the
  outcome. Rule 2 (reading the two dimensions) never fails and is the function
  \<open>dimension\<close>; each of the others is a function that names the failure it reports,
  looking at the request alone and not at the rules before it.
\<close>

datatype dim = Width | Height

datatype failure =
    MissingURL
  | IncompleteDimensions dim
  | MalformedURL string
  | InsecureScheme

definition dimension :: "string \<Rightarrow> int" where
  \<comment> \<open>rule 2: a parse failure or a non-positive value is "not supplied", the value 0\<close>
  "dimension s = (case Atoi s of Inl err \<Rightarrow> 0 | Inr n \<Rightarrow> (if n < 1 then 0 else n))"

definition rule_url :: "'img env \<Rightarrow> Request \<Rightarrow> failure option" where
  "rule_url env r =
     (if TrimSpace (Get (Query r) ''url'') = [] then Some MissingURL else None)"

definition rule_width :: "'img env \<Rightarrow> Request \<Rightarrow> failure option" where
  "rule_width env r =
     (if 0 < dimension (Get (Query r) ''width'') \<and> dimension (Get (Query r) ''height'') = 0
      then Some (IncompleteDimensions Width) else None)"

definition rule_height :: "'img env \<Rightarrow> Request \<Rightarrow> failure option" where
  "rule_height env r =
     (if 0 < dimension (Get (Query r) ''height'') \<and> dimension (Get (Query r) ''width'') = 0
      then Some (IncompleteDimensions Height) else None)"

definition rule_parse :: "'img env \<Rightarrow> Request \<Rightarrow> failure option" where
  "rule_parse env r =
     (case url_Parse env (TrimSpace (Get (Query r) ''url'')) of
        Inl err \<Rightarrow> Some (MalformedURL err)
      | Inr url \<Rightarrow> None)"

definition rule_scheme :: "'img env \<Rightarrow> Request \<Rightarrow> failure option" where
  "rule_scheme env r =
     (case url_Parse env (TrimSpace (Get (Query r) ''url'')) of
        Inl err \<Rightarrow> None
      | Inr url \<Rightarrow>
          (if AllowInsecureURIs env then None
           else if HasPrefix (Scheme url) ''http'' then None
           else Some InsecureScheme))"

definition rules :: "('img env \<Rightarrow> Request \<Rightarrow> failure option) list" where
  "rules = [rule_url, rule_width, rule_height, rule_parse, rule_scheme]"

fun first_failing :: "('img env \<Rightarrow> Request \<Rightarrow> failure option) list \<Rightarrow> 'img env \<Rightarrow> Request \<Rightarrow> failure option" where
  "first_failing [] env r = None"
| "first_failing (rule # rest) env r =
     (case rule env r of Some f \<Rightarrow> Some f | None \<Rightarrow> first_failing rest env r)"

definition failure_status :: "failure \<Rightarrow> int" where
  "failure_status f = (case f of MalformedURL err \<Rightarrow> StatusInternalServerError | _ \<Rightarrow> StatusNotAcceptable)"

definition failure_message :: "failure \<Rightarrow> string" where
  "failure_message f =
     (case f of
        MissingURL \<Rightarrow> ''url parameter missing. eg ?url=https://google.com''
      | IncompleteDimensions Width \<Rightarrow> ''received width option without height argument''
      | IncompleteDimensions Height \<Rightarrow> ''received height option without width argument''
      | MalformedURL err \<Rightarrow> err
      | InsecureScheme \<Rightarrow> ''only http(s) urls are accepted'')"

definition backend_invoked :: "'img call list \<Rightarrow> bool" where
  "backend_invoked cs = list_ex (\<lambda>c. case c of ScreenshotCall u \<Rightarrow> True | _ \<Rightarrow> False) cs"

subsection \<open>The scheme split of net/url, for the examples\<close>

text \<open>
  \<open>getScheme\<close> is the loop of \<open>net/url\<close> that splits a leading \<open>scheme:\<close> off a raw URL;
  \<open>url.Parse\<close> cuts the fragment off first and lower-cases the scheme it finds.
  \<open>scheme_Parse\<close> goes that far and no further: the later stages of \<open>url.Parse\<close>
  (authority, path and escapes), which reject further inputs and wrap the error text, are
  not written out. It instantiates \<open>url_Parse\<close> in the examples only; every general
  theorem is about an arbitrary \<open>url_Parse\<close>.
\<close>

definition is_alpha :: "char \<Rightarrow> bool" where
  "is_alpha c =
     (((97::nat) \<le> of_char c \<and> of_char c \<le> (122::nat)) \<or>
      ((65::nat) \<le> of_char c \<and> of_char c \<le> (90::nat)))"

fun scan_scheme :: "nat \<Rightarrow> string \<Rightarrow> string \<Rightarrow> string + string \<times> string" where
  "scan_scheme i rawURL [] = Inr ([], rawURL)"
| "scan_scheme i rawURL (c # cs) =
     (if is_alpha c then scan_scheme (Suc i) rawURL cs
      else if is_digit c \<or> c = CHR ''+'' \<or> c = CHR ''-'' \<or> c = CHR ''.'' then
        (if i = 0 then Inr ([], rawURL) else scan_scheme (Suc i) rawURL cs)
      else if c = CHR '':'' then
        (if i = 0 then Inl ''missing protocol scheme''
         else Inr (take i rawURL, drop (Suc i) rawURL))
      else Inr ([], rawURL))"

definition getScheme :: "string \<Rightarrow> string + string \<times> string" where
  "getScheme rawURL = scan_scheme 0 rawURL rawURL"

definition ToLower :: "string \<Rightarrow> string" where
  \<comment> \<open>on the ASCII letters, the only letters a scheme holds\<close>
  "ToLower s =
     map (\<lambda>c. if (65::nat) \<le> of_char c \<and> of_char c \<le> (90::nat)
              then char_of (of_char c + (32::nat)) else c) s"

definition scheme_Parse :: "string \<Rightarrow> string + URL" where
  "scheme_Parse rawURL =
     (case getScheme (takeWhile (\<lambda>c. c \<noteq> CHR ''#'') rawURL) of
        Inl err \<Rightarrow> Inl err
      | Inr (scheme, rest) \<Rightarrow>
          Inr \<lparr>Scheme = ToLower scheme,
               Rest = rest @ dropWhile (\<lambda>c. c \<noteq> CHR ''#'') rawURL\<rparr>)"

text \<open>
  An environment for the examples: the default configuration, a backend that returns four
  bytes, a decoder and a resizer that pass them on, and an encoder that writes one chunk.
\<close>

definition example_env :: "string env" where
  "example_env =
     \<lparr>AllowInsecureURIs = False,
      url_Parse = scheme_Parse,
      Screenshot = (\<lambda>u. Inr ''PNG0''),
      image_Decode = (\<lambda>buf. Inr buf),
      imaging_Fit = (\<lambda>img w h. img),
      jpeg_Encode = (\<lambda>img. ([''JFIF''], None))\<rparr>"

definition request :: "(string \<times> string) list \<Rightarrow> Request" where
  \<comment> \<open>the request whose query holds each listed key once\<close>
  "request kvs = \<lparr>Query = map_of (map (\<lambda>(k, v). (k, [v])) kvs)\<rparr>"

section \<open>Properties\<close>

subsection \<open>White space and blank strings\<close>

lemma leading_space_Nil: "leading_space [] = 0"
  by (simp add: leading_space_def space_encodings_def)

lemma trailing_space_Nil: "trailing_space [] = 0"
  by (simp add: trailing_space_def space_encodings_def)

lemma leading_space_all:
  "list_all (\<lambda>e. \<forall>rest. leading_space (e @ rest) = length e \<and> e \<noteq> []) space_encodings"
  by (simp add: leading_space_def space_encodings_def)

lemma leading_space_encoding:
  "e \<in> set space_encodings \<Longrightarrow> leading_space (e @ rest) = length e \<and> e \<noteq> []"
  using leading_space_all by (simp add: list_all_iff)

lemma leading_space_found:
  assumes "leading_space s \<noteq> 0"
  shows "\<exists>e. e \<in> set space_encodings \<and> s = e @ drop (leading_space s) s"
proof -
  from assms obtain e where "List.find (\<lambda>e. prefix e s) space_encodings = Some e"
    and len: "leading_space s = length e"
    by (auto simp: leading_space_def split: option.splits)
  then have "e \<in> set space_encodings" and "prefix e s"
    by (auto simp: find_Some_iff)
  with len show ?thesis by (auto simp: prefix_def)
qed

lemma trailing_space_found:
  assumes "trailing_space s \<noteq> 0"
  shows "\<exists>e. e \<in> set space_encodings \<and> s = take (length s - trailing_space s) s @ e"
proof -
  from assms obtain e where "List.find (\<lambda>e. suffix e s) space_encodings = Some e"
    and len: "trailing_space s = length e"
    by (auto simp: trailing_space_def split: option.splits)
  then have "e \<in> set space_encodings" and "suffix e s"
    by (auto simp: find_Some_iff)
  with len show ?thesis by (auto simp: suffix_def)
qed

lemma TrimLeft_spaces:
  "set ws \<subseteq> set space_encodings \<Longrightarrow> TrimLeft (concat ws) = []"
proof (induction ws)
  case Nil
  show ?case by (subst TrimLeft.simps) (simp add: leading_space_Nil)
next
  case (Cons e ws)
  then have e: "e \<in> set space_encodings" and ws: "set ws \<subseteq> set space_encodings" by auto
  from leading_space_encoding [OF e, of "concat ws"]
  have "TrimLeft (e @ concat ws) = TrimLeft (concat ws)"
    by (subst TrimLeft.simps) simp
  with Cons.IH [OF ws] show ?case by simp
qed

lemma TrimRight_Nil: "TrimRight [] = []"
  by (subst TrimRight.simps) (simp add: trailing_space_Nil)

lemma TrimLeft_decompose:
  "\<exists>ws. set ws \<subseteq> set space_encodings \<and> s = concat ws @ TrimLeft s \<and>
     leading_space (TrimLeft s) = 0"
proof (induction s rule: TrimLeft.induct)
  case (1 s)
  show ?case
  proof (cases "leading_space s = 0")
    case True
    then have "TrimLeft s = s" by (subst TrimLeft.simps) simp
    with True show ?thesis by (intro exI [of _ "[]"]) simp
  next
    case False
    let ?t = "drop (leading_space s) s"
    from leading_space_found [OF False] obtain e
      where e: "e \<in> set space_encodings" "s = e @ ?t" by blast
    from False have eq: "TrimLeft s = TrimLeft ?t"
      by (subst TrimLeft.simps) simp
    from 1 [OF False] obtain ws where ws: "set ws \<subseteq> set space_encodings"
      "?t = concat ws @ TrimLeft ?t" "leading_space (TrimLeft ?t) = 0" by blast
    have "s = concat (e # ws) @ TrimLeft s"
      using e(2) ws(2) eq by (metis append.assoc concat.simps(2))
    moreover have "set (e # ws) \<subseteq> set space_encodings" using e(1) ws(1) by simp
    ultimately show ?thesis using ws(3) eq by metis
  qed
qed

lemma TrimRight_decompose:
  "\<exists>ws. set ws \<subseteq> set space_encodings \<and> s = TrimRight s @ concat ws"
proof (induction s rule: TrimRight.induct)
  case (1 s)
  show ?case
  proof (cases "trailing_space s = 0")
    case True
    then have "TrimRight s = s" by (subst TrimRight.simps) simp
    then show ?thesis by (intro exI [of _ "[]"]) simp
  next
    case False
    let ?t = "take (length s - trailing_space s) s"
    from trailing_space_found [OF False] obtain e
      where e: "e \<in> set space_encodings" "s = ?t @ e" by blast
    from False have eq: "TrimRight s = TrimRight ?t"
      by (subst TrimRight.simps) simp
    from 1 [OF False] obtain ws where ws: "set ws \<subseteq> set space_encodings"
      "?t = TrimRight ?t @ concat ws" by blast
    have "s = TrimRight s @ concat (ws @ [e])"
      using e(2) ws(2) eq by (metis append.assoc append_Nil2 concat.simps concat_append)
    moreover have "set (ws @ [e]) \<subseteq> set space_encodings" using e(1) ws(1) by simp
    ultimately show ?thesis by metis
  qed
qed

text \<open>
  A string trims to nothing exactly when it is a sequence of white-space code points
  (the empty sequence included).
\<close>

lemma TrimSpace_empty_iff:
  "TrimSpace s = [] \<longleftrightarrow> (\<exists>ws. set ws \<subseteq> set space_encodings \<and> s = concat ws)"
proof
  assume "\<exists>ws. set ws \<subseteq> set space_encodings \<and> s = concat ws"
  then show "TrimSpace s = []"
    by (auto simp: TrimSpace_def TrimLeft_spaces TrimRight_Nil)
next
  assume blank: "TrimSpace s = []"
  obtain ls where ls: "set ls \<subseteq> set space_encodings" "s = concat ls @ TrimLeft s"
    "leading_space (TrimLeft s) = 0"
    using TrimLeft_decompose [of s] by blast
  obtain rs where rs: "set rs \<subseteq> set space_encodings"
    "TrimLeft s = TrimRight (TrimLeft s) @ concat rs"
    using TrimRight_decompose [of "TrimLeft s"] by blast
  from blank rs have t: "TrimLeft s = concat rs" by (simp add: TrimSpace_def)
  have "TrimLeft s = []"
  proof (cases rs)
    case Nil
    with t show ?thesis by simp
  next
    case (Cons e es)
    with rs have "e \<in> set space_encodings" by simp
    from leading_space_encoding [OF this, of "concat es"] t Cons ls(3)
    show ?thesis by simp
  qed
  with ls show "\<exists>ws. set ws \<subseteq> set space_encodings \<and> s = concat ws" by auto
qed

subsection \<open>What one call of http.Error or Write leaves in a new response\<close>

lemma status_http_Error: "status (http_Error newResponse e c) = Some c"
  by (simp add: status_def http_Error_def Write_def WriteHeader_def Header_Set_def newResponse_def)

lemma body_http_Error: "body (http_Error newResponse e c) = e @ [CHR 0x0A]"
  by (simp add: http_Error_def Write_def WriteHeader_def Header_Set_def newResponse_def)

lemma content_type_http_Error:
  "sent_header (http_Error newResponse e c) ''Content-Type'' = Some [''text/plain; charset=utf-8'']"
  by (simp add: sent_header_def http_Error_def Write_def WriteHeader_def Header_Set_def
      newResponse_def)

lemma status_Write_new: "status (Write (Header_Set newResponse k v) buf) = Some StatusOK"
  by (simp add: status_def Write_def WriteHeader_def Header_Set_def newResponse_def)

lemma body_Write_new: "body (Write (Header_Set newResponse k v) buf) = buf"
  by (simp add: Write_def WriteHeader_def Header_Set_def newResponse_def)

lemma sent_header_Write_new: "sent_header (Write (Header_Set newResponse k v) buf) k = Some [v]"
  by (simp add: sent_header_def Write_def WriteHeader_def Header_Set_def newResponse_def)

lemmas response_simps = status_http_Error body_http_Error content_type_http_Error
  status_Write_new body_Write_new sent_header_Write_new

lemma dimension_nonneg: "0 \<le> dimension s"
  by (simp add: dimension_def split: sum.splits)

text \<open>
  The handler calls the capture backend with \<open>u\<close> exactly when the request passes the
  whole validation with \<open>u\<close> as its parsed url.
\<close>

lemma reaches_backend_iff:
  "ScreenshotCall u \<in> set (snd (handler env r w)) \<longleftrightarrow>
     TrimSpace (Get (Query r) ''url'') \<noteq> [] \<and>
     (dimension (Get (Query r) ''width'') = 0) = (dimension (Get (Query r) ''height'') = 0) \<and>
     url_Parse env (TrimSpace (Get (Query r) ''url'')) = Inr u \<and>
     (AllowInsecureURIs env \<or> HasPrefix (Scheme u) ''http'')"
  using dimension_nonneg [of "Get (Query r) ''width''"]
    dimension_nonneg [of "Get (Query r) ''height''"]
  by (auto simp: handler_def dimension_def Let_def split: sum.splits if_splits option.splits)


subsection \<open>The blank url\<close>

text \<open>
  C9. For every request whose \<open>url\<close> parameter is empty or consists only of white space
  (a sequence of white-space code points), the response has status 406 and the guidance
  message, and nothing else happens: no collaborator is called, and the whole result is
  the same whatever the environment and whatever else the request holds (the dimensions
  are not read, the url is not parsed, no capture is made).
\<close>

theorem blank_url_not_acceptable:
  assumes "set ws \<subseteq> set space_encodings"
    and "Get (Query r) ''url'' = concat ws"
  shows "status (fst (handler env r newResponse)) = Some StatusNotAcceptable \<and>
         body (fst (handler env r newResponse)) =
           ''url parameter missing. eg ?url=https://google.com'' @ [CHR 0x0A] \<and>
         snd (handler env r newResponse) = [] \<and>
         (\<forall>env' r'. Get (Query r') ''url'' = Get (Query r) ''url'' \<longrightarrow>
            handler env' r' newResponse = handler env r newResponse)"
proof -
  from assms have "TrimSpace (Get (Query r) ''url'') = []"
    using TrimSpace_empty_iff by metis
  then show ?thesis
    by (simp add: handler_def response_simps)
qed

theorem blank_url_not_acceptable_witness:
  "set [[CHR 0x20], [CHR 0x09], [CHR 0xC2, CHR 0xA0]] \<subseteq> set space_encodings \<and>
   Get (Query (request [(''url'', [CHR 0x20, CHR 0x09, CHR 0xC2, CHR 0xA0]), (''width'', ''5'')])) ''url'' =
     concat [[CHR 0x20], [CHR 0x09], [CHR 0xC2, CHR 0xA0]] \<and>
   status (fst (handler example_env
     (request [(''url'', [CHR 0x20, CHR 0x09, CHR 0xC2, CHR 0xA0]), (''width'', ''5'')]) newResponse)) =
     Some StatusNotAcceptable \<and>
   snd (handler example_env
     (request [(''url'', [CHR 0x20, CHR 0x09, CHR 0xC2, CHR 0xA0]), (''width'', ''5'')]) newResponse) = []"
proof -
  have h1: "set [[CHR 0x20], [CHR 0x09], [CHR 0xC2, CHR 0xA0]] \<subseteq> set space_encodings"
    by (simp add: space_encodings_def)
  have h2: "Get (Query (request [(''url'', [CHR 0x20, CHR 0x09, CHR 0xC2, CHR 0xA0]), (''width'', ''5'')])) ''url'' =
     concat [[CHR 0x20], [CHR 0x09], [CHR 0xC2, CHR 0xA0]]"
    by (simp add: request_def Get_def)
  from blank_url_not_acceptable [OF h1 h2, of example_env] h1 h2 show ?thesis by blast
qed

subsection \<open>The pass-through of the PNG\<close>

text \<open>
  C3. For every request in which neither width nor height is supplied (each is absent,
  unparseable or non-positive, so both are 0), when the handler calls the capture backend
  and the backend returns bytes, the response has status 200, its Content-Type is exactly
  \<open>image/png\<close>, its body is exactly the backend's bytes, and the handler made no call
  to decode, resize or encode.
\<close>

theorem png_pass_through:
  assumes "dimension (Get (Query r) ''width'') = 0"
    and "dimension (Get (Query r) ''height'') = 0"
    and "ScreenshotCall u \<in> set (snd (handler env r newResponse))"
    and "Screenshot env u = Inr buf"
  shows "status (fst (handler env r newResponse)) = Some StatusOK \<and>
         sent_header (fst (handler env r newResponse)) ''Content-Type'' = Some [''image/png''] \<and>
         body (fst (handler env r newResponse)) = buf \<and>
         snd (handler env r newResponse) =
           [ParseCall (TrimSpace (Get (Query r) ''url'')), ScreenshotCall u]"
  using assms
  by (auto simp: handler_def dimension_def Let_def response_simps split: sum.splits if_splits)

theorem png_pass_through_witness:
  "dimension (Get (Query (request [(''url'', ''https://example.com''), (''width'', ''abc'')])) ''width'') = 0 \<and>
   dimension (Get (Query (request [(''url'', ''https://example.com''), (''width'', ''abc'')])) ''height'') = 0 \<and>
   ScreenshotCall \<lparr>Scheme = ''https'', Rest = ''//example.com''\<rparr>
     \<in> set (snd (handler example_env
          (request [(''url'', ''https://example.com''), (''width'', ''abc'')]) newResponse)) \<and>
   Screenshot example_env \<lparr>Scheme = ''https'', Rest = ''//example.com''\<rparr> = Inr ''PNG0'' \<and>
   sent_header (fst (handler example_env
       (request [(''url'', ''https://example.com''), (''width'', ''abc'')]) newResponse)) ''Content-Type'' =
     Some [''image/png''] \<and>
   body (fst (handler example_env
       (request [(''url'', ''https://example.com''), (''width'', ''abc'')]) newResponse)) = ''PNG0''"
proof -
  let ?r = "request [(''url'', ''https://example.com''), (''width'', ''abc'')]"
  let ?u = "\<lparr>Scheme = ''https'', Rest = ''//example.com''\<rparr>"
  have h1: "dimension (Get (Query ?r) ''width'') = 0" by code_simp
  have h2: "dimension (Get (Query ?r) ''height'') = 0" by code_simp
  have h3: "ScreenshotCall ?u \<in> set (snd (handler example_env ?r newResponse))" by code_simp
  have h4: "Screenshot example_env ?u = Inr ''PNG0''" by (simp add: example_env_def)
  from png_pass_through [OF h1 h2 h3 h4] h1 h2 h3 h4 show ?thesis by blast
qed

subsection \<open>A failing capture\<close>

text \<open>
  C6. For every validated request (one for which the handler reaches the call of the
  capture backend) for which the backend returns an error, the response has status 500,
  its body is the backend's error text (and a newline), and no image is written: the body
  holds nothing else, the Content-Type is the plain-text one, and neither the decoder nor
  the encoder is called.
\<close>

theorem capture_failure:
  assumes "ScreenshotCall u \<in> set (snd (handler env r newResponse))"
    and "Screenshot env u = Inl err"
  shows "status (fst (handler env r newResponse)) = Some StatusInternalServerError \<and>
         body (fst (handler env r newResponse)) = err @ [CHR 0x0A] \<and>
         sent_header (fst (handler env r newResponse)) ''Content-Type'' =
           Some [''text/plain; charset=utf-8''] \<and>
         snd (handler env r newResponse) =
           [ParseCall (TrimSpace (Get (Query r) ''url'')), ScreenshotCall u]"
  using assms
  by (auto simp: handler_def Let_def response_simps split: sum.splits if_splits option.splits)

theorem capture_failure_witness:
  "ScreenshotCall \<lparr>Scheme = ''https'', Rest = ''//example.com''\<rparr>
     \<in> set (snd (handler (example_env\<lparr>Screenshot := (\<lambda>u. Inl ''chrome: timeout'')\<rparr>)
          (request [(''url'', ''https://example.com'')]) newResponse)) \<and>
   Screenshot (example_env\<lparr>Screenshot := (\<lambda>u. Inl ''chrome: timeout'')\<rparr>)
     \<lparr>Scheme = ''https'', Rest = ''//example.com''\<rparr> = Inl ''chrome: timeout'' \<and>
   status (fst (handler (example_env\<lparr>Screenshot := (\<lambda>u. Inl ''chrome: timeout'')\<rparr>)
          (request [(''url'', ''https://example.com'')]) newResponse)) =
     Some StatusInternalServerError \<and>
   body (fst (handler (example_env\<lparr>Screenshot := (\<lambda>u. Inl ''chrome: timeout'')\<rparr>)
          (request [(''url'', ''https://example.com'')]) newResponse)) =
     ''chrome: timeout'' @ [CHR 0x0A]"
proof -
  let ?env = "example_env\<lparr>Screenshot := (\<lambda>u. Inl ''chrome: timeout'')\<rparr>"
  let ?r = "request [(''url'', ''https://example.com'')]"
  let ?u = "\<lparr>Scheme = ''https'', Rest = ''//example.com''\<rparr>"
  have h1: "ScreenshotCall ?u \<in> set (snd (handler ?env ?r newResponse))" by code_simp
  have h2: "Screenshot ?env ?u = Inl ''chrome: timeout''" by simp
  from capture_failure [OF h1 h2] h1 h2 show ?thesis by blast
qed

subsection \<open>One dimension without the other\<close>

text \<open>
  C4, as amended. For every request in which exactly one of the two dimensions is
  effectively supplied (one is a positive integer, the other absent, unparseable or
  non-positive), the response has status 406 and no collaborator is called, the capture
  backend in particular; and when the \<open>url\<close> parameter is not blank, the message names the
  missing dimension.
\<close>

theorem incomplete_dimensions:
  assumes "(0 < dimension (Get (Query r) ''width'') \<and> dimension (Get (Query r) ''height'') = 0) \<or>
           (0 < dimension (Get (Query r) ''height'') \<and> dimension (Get (Query r) ''width'') = 0)"
  shows "status (fst (handler env r newResponse)) = Some StatusNotAcceptable \<and>
         snd (handler env r newResponse) = [] \<and>
         \<not> backend_invoked (snd (handler env r newResponse)) \<and>
         (TrimSpace (Get (Query r) ''url'') \<noteq> [] \<longrightarrow>
            body (fst (handler env r newResponse)) =
              (if 0 < dimension (Get (Query r) ''width'')
               then ''received width option without height argument''
               else ''received height option without width argument'') @ [CHR 0x0A])"
  using assms
  by (auto simp: handler_def dimension_def Let_def response_simps backend_invoked_def
      split: sum.splits if_splits)

theorem incomplete_dimensions_witness:
  "0 < dimension (Get (Query (request [(''url'', ''https://example.com''), (''height'', ''720'')])) ''height'') \<and>
   dimension (Get (Query (request [(''url'', ''https://example.com''), (''height'', ''720'')])) ''width'') = 0 \<and>
   TrimSpace (Get (Query (request [(''url'', ''https://example.com''), (''height'', ''720'')])) ''url'') \<noteq> [] \<and>
   status (fst (handler example_env
       (request [(''url'', ''https://example.com''), (''height'', ''720'')]) newResponse)) =
     Some StatusNotAcceptable \<and>
   snd (handler example_env
       (request [(''url'', ''https://example.com''), (''height'', ''720'')]) newResponse) = [] \<and>
   body (fst (handler example_env
       (request [(''url'', ''https://example.com''), (''height'', ''720'')]) newResponse)) =
     ''received height option without width argument'' @ [CHR 0x0A]"
proof -
  let ?r = "request [(''url'', ''https://example.com''), (''height'', ''720'')]"
  have h1: "0 < dimension (Get (Query ?r) ''height'')" by code_simp
  have h2: "dimension (Get (Query ?r) ''width'') = 0" by code_simp
  have h3: "TrimSpace (Get (Query ?r) ''url'') \<noteq> []" by code_simp
  from h1 h2 have "(0 < dimension (Get (Query ?r) ''width'') \<and> dimension (Get (Query ?r) ''height'') = 0) \<or>
           (0 < dimension (Get (Query ?r) ''height'') \<and> dimension (Get (Query ?r) ''width'') = 0)"
    by simp
  from incomplete_dimensions [OF this, of example_env] h1 h2 h3 show ?thesis by simp
qed

text \<open>
  C4 as it is stated fails on a request with a width, no height and no url: the blank-url
  check comes first, and its message names no dimension.
\<close>

theorem incomplete_dimensions_counterexample:
  "0 < dimension (Get (Query (request [(''width'', ''1280'')])) ''width'') \<and>
   dimension (Get (Query (request [(''width'', ''1280'')])) ''height'') = 0 \<and>
   body (fst (handler example_env (request [(''width'', ''1280'')]) newResponse)) =
     ''url parameter missing. eg ?url=https://google.com'' @ [CHR 0x0A] \<and>
   body (fst (handler example_env (request [(''width'', ''1280'')]) newResponse)) \<noteq>
     ''received width option without height argument'' @ [CHR 0x0A]"
  by code_simp

subsection \<open>Relaxed mode\<close>

text \<open>
  C7, as amended. When \<open>AllowInsecureURIs\<close> is set, no scheme is filtered: for every
  request whose url is not blank and parses successfully and whose dimensions validate
  (both supplied or neither), the handler calls the capture backend with the parsed target,
  whatever its scheme. The calls it has made by then are the parse and that capture.
\<close>

theorem relaxed_mode_invokes_backend:
  assumes "AllowInsecureURIs env"
    and "TrimSpace (Get (Query r) ''url'') \<noteq> []"
    and "url_Parse env (TrimSpace (Get (Query r) ''url'')) = Inr u"
    and "(dimension (Get (Query r) ''width'') = 0) = (dimension (Get (Query r) ''height'') = 0)"
  shows "take 2 (snd (handler env r newResponse)) =
           [ParseCall (TrimSpace (Get (Query r) ''url'')), ScreenshotCall u] \<and>
         backend_invoked (snd (handler env r newResponse))"
  using assms dimension_nonneg [of "Get (Query r) ''width''"]
    dimension_nonneg [of "Get (Query r) ''height''"]
  by (auto simp: handler_def dimension_def Let_def backend_invoked_def
      split: sum.splits if_splits option.splits)

theorem relaxed_mode_invokes_backend_witness:
  "AllowInsecureURIs (example_env\<lparr>AllowInsecureURIs := True\<rparr>) \<and>
   TrimSpace (Get (Query (request [(''url'', ''file:///etc/passwd'')])) ''url'') \<noteq> [] \<and>
   url_Parse (example_env\<lparr>AllowInsecureURIs := True\<rparr>)
     (TrimSpace (Get (Query (request [(''url'', ''file:///etc/passwd'')])) ''url'')) =
     Inr \<lparr>Scheme = ''file'', Rest = ''///etc/passwd''\<rparr> \<and>
   take 2 (snd (handler (example_env\<lparr>AllowInsecureURIs := True\<rparr>)
       (request [(''url'', ''file:///etc/passwd'')]) newResponse)) =
     [ParseCall ''file:///etc/passwd'',
      ScreenshotCall \<lparr>Scheme = ''file'', Rest = ''///etc/passwd''\<rparr>]"
proof -
  let ?env = "example_env\<lparr>AllowInsecureURIs := True\<rparr>"
  let ?r = "request [(''url'', ''file:///etc/passwd'')]"
  let ?u = "\<lparr>Scheme = ''file'', Rest = ''///etc/passwd''\<rparr>"
  have h1: "AllowInsecureURIs ?env" by simp
  have h2: "TrimSpace (Get (Query ?r) ''url'') \<noteq> []" by code_simp
  have h3: "url_Parse ?env (TrimSpace (Get (Query ?r) ''url'')) = Inr ?u" by code_simp
  have h4: "(dimension (Get (Query ?r) ''width'') = 0) = (dimension (Get (Query ?r) ''height'') = 0)"
    by code_simp
  have t: "TrimSpace (Get (Query ?r) ''url'') = ''file:///etc/passwd''" by code_simp
  from relaxed_mode_invokes_backend [OF h1 h2 h3 h4] h1 h2 h3 t show ?thesis by simp
qed

text \<open>
  C7 as it is stated fails on a url of white space only: what is left of it after trimming
  is the empty string, which parses successfully (to a url with no scheme), and the
  dimensions validate, yet the blank-url check has answered 406 before any parse and the
  backend is not called.
\<close>

theorem relaxed_mode_counterexample:
  "AllowInsecureURIs (example_env\<lparr>AllowInsecureURIs := True\<rparr>) \<and>
   url_Parse (example_env\<lparr>AllowInsecureURIs := True\<rparr>)
     (TrimSpace (Get (Query (request [(''url'', '' '')])) ''url'')) =
     Inr \<lparr>Scheme = [], Rest = []\<rparr> \<and>
   dimension (Get (Query (request [(''url'', '' '')])) ''width'') = 0 \<and>
   dimension (Get (Query (request [(''url'', '' '')])) ''height'') = 0 \<and>
   snd (handler (example_env\<lparr>AllowInsecureURIs := True\<rparr>)
     (request [(''url'', '' '')]) newResponse) = [] \<and>
   \<not> backend_invoked (snd (handler (example_env\<lparr>AllowInsecureURIs := True\<rparr>)
     (request [(''url'', '' '')]) newResponse)) \<and>
   status (fst (handler (example_env\<lparr>AllowInsecureURIs := True\<rparr>)
     (request [(''url'', '' '')]) newResponse)) = Some StatusNotAcceptable"
  by code_simp


subsection \<open>The order of the validation rules\<close>

lemma first_failing_rules:
  "first_failing rules env r =
     (case rule_url env r of Some f \<Rightarrow> Some f | None \<Rightarrow>
      (case rule_width env r of Some f \<Rightarrow> Some f | None \<Rightarrow>
       (case rule_height env r of Some f \<Rightarrow> Some f | None \<Rightarrow>
        (case rule_parse env r of Some f \<Rightarrow> Some f | None \<Rightarrow> rule_scheme env r))))"
  by (simp add: rules_def split: option.splits)

lemmas rule_defs = rule_url_def rule_width_def rule_height_def rule_parse_def rule_scheme_def

text \<open>
  C5. The rules apply in the order blank url, (reading the dimensions,) width without
  height, height without width, url parse, scheme check, and the first rule that fails
  decides the outcome alone: the response is the one \<open>http.Error\<close> writes for that
  failure (status 500 for a malformed url, 406 for every other failure) and the capture
  backend is not called; when no rule fails the backend is called. In particular a request
  that passes the rules before the parse and whose url fails to parse gets status 500 with
  the parse error text, and a request that violates a dimension rule and whose url would
  fail to parse gets 406.
\<close>

theorem first_failing_rule_decides:
  "(case first_failing rules env r of
      Some f \<Rightarrow>
        fst (handler env r newResponse) =
          http_Error newResponse (failure_message f) (failure_status f) \<and>
        \<not> backend_invoked (snd (handler env r newResponse))
    | None \<Rightarrow> backend_invoked (snd (handler env r newResponse))) \<and>
   (rule_url env r = None \<and> rule_width env r = None \<and> rule_height env r = None \<and>
    url_Parse env (TrimSpace (Get (Query r) ''url'')) = Inl err \<longrightarrow>
      status (fst (handler env r newResponse)) = Some StatusInternalServerError \<and>
      body (fst (handler env r newResponse)) = err @ [CHR 0x0A]) \<and>
   ((rule_width env r \<noteq> None \<or> rule_height env r \<noteq> None) \<and>
    rule_parse env r \<noteq> None \<longrightarrow>
      status (fst (handler env r newResponse)) = Some StatusNotAcceptable)"
proof (intro conjI impI)
  show "case first_failing rules env r of
      Some f \<Rightarrow>
        fst (handler env r newResponse) =
          http_Error newResponse (failure_message f) (failure_status f) \<and>
        \<not> backend_invoked (snd (handler env r newResponse))
    | None \<Rightarrow> backend_invoked (snd (handler env r newResponse))"
    by (auto simp: first_failing_rules rule_defs handler_def dimension_def Let_def
        failure_message_def failure_status_def backend_invoked_def
        split: sum.splits if_splits option.splits)
next
  assume "rule_url env r = None \<and> rule_width env r = None \<and> rule_height env r = None \<and>
    url_Parse env (TrimSpace (Get (Query r) ''url'')) = Inl err"
  then show "status (fst (handler env r newResponse)) = Some StatusInternalServerError"
    and "body (fst (handler env r newResponse)) = err @ [CHR 0x0A]"
    by (auto simp: rule_defs handler_def dimension_def Let_def response_simps
        split: sum.splits if_splits)
next
  assume "(rule_width env r \<noteq> None \<or> rule_height env r \<noteq> None) \<and>
    rule_parse env r \<noteq> None"
  then show "status (fst (handler env r newResponse)) = Some StatusNotAcceptable"
    by (auto simp: rule_defs handler_def dimension_def Let_def response_simps
        split: sum.splits if_splits)
qed

theorem first_failing_rule_decides_witness:
  "first_failing rules example_env (request [(''url'', '':8080/x''), (''width'', ''5'')]) =
     Some (IncompleteDimensions Width) \<and>
   rule_parse example_env (request [(''url'', '':8080/x''), (''width'', ''5'')]) =
     Some (MalformedURL ''missing protocol scheme'') \<and>
   status (fst (handler example_env (request [(''url'', '':8080/x''), (''width'', ''5'')]) newResponse)) =
     Some StatusNotAcceptable \<and>
   fst (handler example_env (request [(''url'', '':8080/x''), (''width'', ''5'')]) newResponse) =
     http_Error newResponse ''received width option without height argument'' StatusNotAcceptable \<and>
   first_failing rules example_env (request [(''url'', '':8080/x'')]) =
     Some (MalformedURL ''missing protocol scheme'') \<and>
   status (fst (handler example_env (request [(''url'', '':8080/x'')]) newResponse)) =
     Some StatusInternalServerError \<and>
   body (fst (handler example_env (request [(''url'', '':8080/x'')]) newResponse)) =
     ''missing protocol scheme'' @ [CHR 0x0A]"
proof -
  let ?r1 = "request [(''url'', '':8080/x''), (''width'', ''5'')]"
  let ?r2 = "request [(''url'', '':8080/x'')]"
  have f1: "first_failing rules example_env ?r1 = Some (IncompleteDimensions Width)"
    by code_simp
  have p1: "rule_parse example_env ?r1 = Some (MalformedURL ''missing protocol scheme'')"
    by code_simp
  have w1: "rule_width example_env ?r1 \<noteq> None" by code_simp
  have f2: "first_failing rules example_env ?r2 = Some (MalformedURL ''missing protocol scheme'')"
    by code_simp
  have u2: "rule_url example_env ?r2 = None" "rule_width example_env ?r2 = None"
    "rule_height example_env ?r2 = None" by code_simp+
  have e2: "url_Parse example_env (TrimSpace (Get (Query ?r2) ''url'')) = Inl ''missing protocol scheme''"
    by code_simp
  from first_failing_rule_decides [of example_env ?r1 "[]"] f1 p1 w1
  have a: "status (fst (handler example_env ?r1 newResponse)) = Some StatusNotAcceptable"
    "fst (handler example_env ?r1 newResponse) =
       http_Error newResponse ''received width option without height argument'' StatusNotAcceptable"
    by (simp_all add: failure_message_def failure_status_def response_simps)
  from first_failing_rule_decides [of example_env ?r2 "''missing protocol scheme''"] u2 e2
  have b: "status (fst (handler example_env ?r2 newResponse)) = Some StatusInternalServerError"
    "body (fst (handler example_env ?r2 newResponse)) = ''missing protocol scheme'' @ [CHR 0x0A]"
    by simp_all
  from f1 p1 f2 a b show ?thesis by blast
qed


subsection \<open>Lenient dimensions\<close>

text \<open>
  C8. The handler parses \<open>width\<close> and \<open>height\<close> as integers with \<open>Atoi\<close>, each from
  its own parameter, and the value it goes on with is \<open>dimension\<close> of that parameter:
  the parsed integer when it is at least 1, and 0, the same as for an absent parameter,
  when \<open>Atoi\<close> rejects the text or the integer is below 1. Such a value is no error by
  itself: with both dimensions 0 and a url that is not blank the handler goes on to the
  parse, the scheme check and the capture, and passes the PNG through; the sizes it hands
  to the resizer are the \<open>dimension\<close> of the width parameter and of the height parameter,
  in that order, and it does hand them over when both are positive and the capture
  decodes. So two requests with the same url whose widths have the same \<open>dimension\<close> and
  whose heights have the same \<open>dimension\<close> get the same result, a request whose two
  dimensions are both rejected or non-positive behaves exactly like the same request with
  neither parameter, and \<open>width=abc&height=xyz\<close> is such a request.
\<close>

theorem lenient_dimensions:
  "(Get (Query r1) ''url'' = Get (Query r2) ''url'' \<and>
    dimension (Get (Query r1) ''width'') = dimension (Get (Query r2) ''width'') \<and>
    dimension (Get (Query r1) ''height'') = dimension (Get (Query r2) ''height'') \<longrightarrow>
      handler env r1 w = handler env r2 w) \<and>
   ((case Atoi (Get (Query r) ''width'') of Inl e \<Rightarrow> True | Inr n \<Rightarrow> n < 1) \<and>
    (case Atoi (Get (Query r) ''height'') of Inl e \<Rightarrow> True | Inr n \<Rightarrow> n < 1) \<longrightarrow>
      handler env r w =
        handler env (r\<lparr>Query := (Query r)(''width'' := None, ''height'' := None)\<rparr>) w) \<and>
   handler env (r\<lparr>Query := (Query r)(''width'' \<mapsto> [''abc''], ''height'' \<mapsto> [''xyz''])\<rparr>) w =
     handler env (r\<lparr>Query := (Query r)(''width'' := None, ''height'' := None)\<rparr>) w \<and>
   (FitCall img wd ht \<in> set (snd (handler env r w)) \<longrightarrow>
      wd = dimension (Get (Query r) ''width'') \<and> ht = dimension (Get (Query r) ''height'') \<and>
      (\<exists>n. Atoi (Get (Query r) ''width'') = Inr n \<and> 1 \<le> n \<and> wd = n) \<and>
      (\<exists>n. Atoi (Get (Query r) ''height'') = Inr n \<and> 1 \<le> n \<and> ht = n)) \<and>
   (TrimSpace (Get (Query r) ''url'') \<noteq> [] \<and>
    Atoi (Get (Query r) ''width'') = Inr nw \<and> 1 \<le> nw \<and>
    Atoi (Get (Query r) ''height'') = Inr nh \<and> 1 \<le> nh \<and>
    url_Parse env (TrimSpace (Get (Query r) ''url'')) = Inr u \<and>
    (AllowInsecureURIs env \<or> HasPrefix (Scheme u) ''http'') \<and>
    Screenshot env u = Inr buf \<and> image_Decode env buf = Inr img0 \<longrightarrow>
      FitCall img0 nw nh \<in> set (snd (handler env r w))) \<and>
   (TrimSpace (Get (Query r) ''url'') \<noteq> [] \<and>
    (case Atoi (Get (Query r) ''width'') of Inl e \<Rightarrow> True | Inr n \<Rightarrow> n < 1) \<and>
    (case Atoi (Get (Query r) ''height'') of Inl e \<Rightarrow> True | Inr n \<Rightarrow> n < 1) \<longrightarrow>
      handler env r w =
        (case url_Parse env (TrimSpace (Get (Query r) ''url'')) of
           Inl err \<Rightarrow>
             (http_Error w err StatusInternalServerError,
              [ParseCall (TrimSpace (Get (Query r) ''url''))])
         | Inr url \<Rightarrow>
             (if \<not> AllowInsecureURIs env \<and> \<not> HasPrefix (Scheme url) ''http'' then
                (http_Error w ''only http(s) urls are accepted'' StatusNotAcceptable,
                 [ParseCall (TrimSpace (Get (Query r) ''url''))])
              else
                (case Screenshot env url of
                   Inl err \<Rightarrow>
                     (http_Error w err StatusInternalServerError,
                      [ParseCall (TrimSpace (Get (Query r) ''url'')), ScreenshotCall url])
                 | Inr buf \<Rightarrow>
                     (Write (Header_Set w ''Content-Type'' ''image/png'') buf,
                      [ParseCall (TrimSpace (Get (Query r) ''url'')), ScreenshotCall url]))))) \<and>
   (TrimSpace (Get (Query r) ''url'') \<noteq> [] \<and>
    (case Atoi (Get (Query r) ''width'') of Inl e \<Rightarrow> True | Inr n \<Rightarrow> n < 1) \<and>
    Atoi (Get (Query r) ''height'') = Inr nh \<and> 1 \<le> nh \<longrightarrow>
      handler env r w =
        (http_Error w ''received height option without width argument'' StatusNotAcceptable, [])) \<and>
   (TrimSpace (Get (Query r) ''url'') \<noteq> [] \<and>
    Atoi (Get (Query r) ''width'') = Inr nw \<and> 1 \<le> nw \<and>
    (case Atoi (Get (Query r) ''height'') of Inl e \<Rightarrow> True | Inr n \<Rightarrow> n < 1) \<longrightarrow>
      handler env r w =
        (http_Error w ''received width option without height argument'' StatusNotAcceptable, []))"
proof (intro conjI impI)
  assume "Get (Query r1) ''url'' = Get (Query r2) ''url'' \<and>
    dimension (Get (Query r1) ''width'') = dimension (Get (Query r2) ''width'') \<and>
    dimension (Get (Query r1) ''height'') = dimension (Get (Query r2) ''height'')"
  then have u: "Get (Query r1) ''url'' = Get (Query r2) ''url''"
    and dw: "(case Atoi (Get (Query r1) ''width'') of Inl err \<Rightarrow> 0
               | Inr n \<Rightarrow> (if n < 1 then 0 else n)) =
             (case Atoi (Get (Query r2) ''width'') of Inl err \<Rightarrow> 0
               | Inr n \<Rightarrow> (if n < 1 then 0 else n))"
    and dh: "(case Atoi (Get (Query r1) ''height'') of Inl err \<Rightarrow> 0
               | Inr n \<Rightarrow> (if n < 1 then 0 else n)) =
             (case Atoi (Get (Query r2) ''height'') of Inl err \<Rightarrow> 0
               | Inr n \<Rightarrow> (if n < 1 then 0 else n))"
    by (simp_all add: dimension_def)
  show "handler env r1 w = handler env r2 w"
    unfolding handler_def by (simp only: u dw dh)
next
  have absent: "Atoi [] = Inl ErrSyntax" by (simp add: Atoi_def)
  assume "(case Atoi (Get (Query r) ''width'') of Inl e \<Rightarrow> True | Inr n \<Rightarrow> n < 1) \<and>
    (case Atoi (Get (Query r) ''height'') of Inl e \<Rightarrow> True | Inr n \<Rightarrow> n < 1)"
  then show "handler env r w =
      handler env (r\<lparr>Query := (Query r)(''width'' := None, ''height'' := None)\<rparr>) w"
    by (auto simp: handler_def Get_def absent Let_def split: sum.splits)
next
  have absent: "Atoi [] = Inl ErrSyntax" by (simp add: Atoi_def)
  have abc: "Atoi ''abc'' = Inl ErrSyntax" by code_simp
  have xyz: "Atoi ''xyz'' = Inl ErrSyntax" by code_simp
  show "handler env (r\<lparr>Query := (Query r)(''width'' \<mapsto> [''abc''], ''height'' \<mapsto> [''xyz''])\<rparr>) w =
     handler env (r\<lparr>Query := (Query r)(''width'' := None, ''height'' := None)\<rparr>) w"
    by (simp add: handler_def Get_def absent abc xyz Let_def)
next
  assume fit: "FitCall img wd ht \<in> set (snd (handler env r w))"
  then show "wd = dimension (Get (Query r) ''width'')"
    and "ht = dimension (Get (Query r) ''height'')"
    and "\<exists>n. Atoi (Get (Query r) ''width'') = Inr n \<and> 1 \<le> n \<and> wd = n"
    and "\<exists>n. Atoi (Get (Query r) ''height'') = Inr n \<and> 1 \<le> n \<and> ht = n"
    by (auto simp: handler_def dimension_def Let_def split: sum.splits if_splits option.splits)
next
  assume "TrimSpace (Get (Query r) ''url'') \<noteq> [] \<and>
    Atoi (Get (Query r) ''width'') = Inr nw \<and> 1 \<le> nw \<and>
    Atoi (Get (Query r) ''height'') = Inr nh \<and> 1 \<le> nh \<and>
    url_Parse env (TrimSpace (Get (Query r) ''url'')) = Inr u \<and>
    (AllowInsecureURIs env \<or> HasPrefix (Scheme u) ''http'') \<and>
    Screenshot env u = Inr buf \<and> image_Decode env buf = Inr img0"
  then show "FitCall img0 nw nh \<in> set (snd (handler env r w))"
    by (auto simp: handler_def Let_def split: option.splits)
next
  assume "TrimSpace (Get (Query r) ''url'') \<noteq> [] \<and>
    (case Atoi (Get (Query r) ''width'') of Inl e \<Rightarrow> True | Inr n \<Rightarrow> n < 1) \<and>
    (case Atoi (Get (Query r) ''height'') of Inl e \<Rightarrow> True | Inr n \<Rightarrow> n < 1)"
  then show "handler env r w =
        (case url_Parse env (TrimSpace (Get (Query r) ''url'')) of
           Inl err \<Rightarrow>
             (http_Error w err StatusInternalServerError,
              [ParseCall (TrimSpace (Get (Query r) ''url''))])
         | Inr url \<Rightarrow>
             (if \<not> AllowInsecureURIs env \<and> \<not> HasPrefix (Scheme url) ''http'' then
                (http_Error w ''only http(s) urls are accepted'' StatusNotAcceptable,
                 [ParseCall (TrimSpace (Get (Query r) ''url''))])
              else
                (case Screenshot env url of
                   Inl err \<Rightarrow>
                     (http_Error w err StatusInternalServerError,
                      [ParseCall (TrimSpace (Get (Query r) ''url'')), ScreenshotCall url])
                 | Inr buf \<Rightarrow>
                     (Write (Header_Set w ''Content-Type'' ''image/png'') buf,
                      [ParseCall (TrimSpace (Get (Query r) ''url'')), ScreenshotCall url]))))"
    by (auto simp: handler_def Let_def split: sum.splits)
next
  assume "TrimSpace (Get (Query r) ''url'') \<noteq> [] \<and>
    (case Atoi (Get (Query r) ''width'') of Inl e \<Rightarrow> True | Inr n \<Rightarrow> n < 1) \<and>
    Atoi (Get (Query r) ''height'') = Inr nh \<and> 1 \<le> nh"
  then show "handler env r w =
      (http_Error w ''received height option without width argument'' StatusNotAcceptable, [])"
    by (auto simp: handler_def Let_def split: sum.splits)
next
  assume "TrimSpace (Get (Query r) ''url'') \<noteq> [] \<and>
    Atoi (Get (Query r) ''width'') = Inr nw \<and> 1 \<le> nw \<and>
    (case Atoi (Get (Query r) ''height'') of Inl e \<Rightarrow> True | Inr n \<Rightarrow> n < 1)"
  then show "handler env r w =
      (http_Error w ''received width option without height argument'' StatusNotAcceptable, [])"
    by (auto simp: handler_def Let_def split: sum.splits)
qed

theorem lenient_dimensions_witness:
  "Get (Query (request [(''url'', ''https://example.com''), (''width'', ''-4''), (''height'', ''1.5'')])) ''url'' =
     Get (Query (request [(''url'', ''https://example.com'')])) ''url'' \<and>
   dimension (Get (Query (request [(''url'', ''https://example.com''), (''width'', ''-4''), (''height'', ''1.5'')])) ''width'') =
     dimension (Get (Query (request [(''url'', ''https://example.com'')])) ''width'') \<and>
   dimension (Get (Query (request [(''url'', ''https://example.com''), (''width'', ''-4''), (''height'', ''1.5'')])) ''height'') =
     dimension (Get (Query (request [(''url'', ''https://example.com'')])) ''height'') \<and>
   Atoi ''-4'' = Inr (- 4) \<and> Atoi ''1.5'' = Inl ErrSyntax \<and>
   handler example_env
     (request [(''url'', ''https://example.com''), (''width'', ''-4''), (''height'', ''1.5'')]) newResponse =
   handler example_env (request [(''url'', ''https://example.com'')]) newResponse \<and>
   Atoi (Get (Query (request [(''url'', ''https://example.com''), (''width'', ''1280''), (''height'', ''720'')])) ''width'') =
     Inr 1280 \<and>
   Atoi (Get (Query (request [(''url'', ''https://example.com''), (''width'', ''1280''), (''height'', ''720'')])) ''height'') =
     Inr 720 \<and>
   FitCall ''PNG0'' 1280 720 \<in> set (snd (handler example_env
     (request [(''url'', ''https://example.com''), (''width'', ''1280''), (''height'', ''720'')]) newResponse)) \<and>
   Atoi (Get (Query (request [(''url'', ''https://example.com''), (''width'', ''abc''), (''height'', ''720'')])) ''width'') =
     Inl ErrSyntax \<and>
   handler example_env
     (request [(''url'', ''https://example.com''), (''width'', ''abc''), (''height'', ''720'')]) newResponse =
     (http_Error newResponse ''received height option without width argument'' StatusNotAcceptable, [])"
proof -
  let ?r1 = "request [(''url'', ''https://example.com''), (''width'', ''-4''), (''height'', ''1.5'')]"
  let ?r2 = "request [(''url'', ''https://example.com'')]"
  let ?r3 = "request [(''url'', ''https://example.com''), (''width'', ''1280''), (''height'', ''720'')]"
  let ?r4 = "request [(''url'', ''https://example.com''), (''width'', ''abc''), (''height'', ''720'')]"
  let ?u = "\<lparr>Scheme = ''https'', Rest = ''//example.com''\<rparr>"
  have h1: "Get (Query ?r1) ''url'' = Get (Query ?r2) ''url''" by code_simp
  have h2: "dimension (Get (Query ?r1) ''width'') = dimension (Get (Query ?r2) ''width'')"
    by code_simp
  have h3: "dimension (Get (Query ?r1) ''height'') = dimension (Get (Query ?r2) ''height'')"
    by code_simp
  have a: "Atoi ''-4'' = Inr (- 4)" "Atoi ''1.5'' = Inl ErrSyntax" by code_simp+
  from lenient_dimensions [where ?r1.0 = ?r1 and ?r2.0 = ?r2 and r = ?r3 and env = example_env
      and w = newResponse and img = "''PNG0''" and wd = 1280 and ht = 720
      and nw = 1280 and nh = 720 and u = ?u and buf = "''PNG0''" and ?img0.0 = "''PNG0''"]
    h1 h2 h3
  have c1: "handler example_env ?r1 newResponse = handler example_env ?r2 newResponse" by blast
  have n1: "(1::int) \<le> 1280" and n2: "(1::int) \<le> 720" by simp_all
  have u3: "TrimSpace (Get (Query ?r3) ''url'') \<noteq> []" by code_simp
  have w3: "Atoi (Get (Query ?r3) ''width'') = Inr 1280" by code_simp
  have g3: "Atoi (Get (Query ?r3) ''height'') = Inr 720" by code_simp
  have p3: "url_Parse example_env (TrimSpace (Get (Query ?r3) ''url'')) = Inr ?u" by code_simp
  have s3: "AllowInsecureURIs example_env \<or> HasPrefix (Scheme ?u) ''http''" by code_simp
  have b3: "Screenshot example_env ?u = Inr ''PNG0''" by (simp add: example_env_def)
  have d3: "image_Decode example_env ''PNG0'' = Inr ''PNG0''" by (simp add: example_env_def)
  from lenient_dimensions [where ?r1.0 = ?r1 and ?r2.0 = ?r2 and r = ?r3 and env = example_env
      and w = newResponse and img = "''PNG0''" and wd = 1280 and ht = 720
      and nw = 1280 and nh = 720 and u = ?u and buf = "''PNG0''" and ?img0.0 = "''PNG0''"]
    u3 w3 g3 p3 s3 b3 d3 n1 n2
  have c3: "FitCall ''PNG0'' 1280 720 \<in> set (snd (handler example_env ?r3 newResponse))"
    by blast
  have u4: "TrimSpace (Get (Query ?r4) ''url'') \<noteq> []" by code_simp
  have w4: "Atoi (Get (Query ?r4) ''width'') = Inl ErrSyntax" by code_simp
  have g4: "Atoi (Get (Query ?r4) ''height'') = Inr 720" by code_simp
  have w4': "case Atoi (Get (Query ?r4) ''width'') of Inl e \<Rightarrow> True | Inr n \<Rightarrow> n < 1"
    by (simp add: w4)
  from lenient_dimensions [where ?r1.0 = ?r1 and ?r2.0 = ?r2 and r = ?r4 and env = example_env
      and w = newResponse and img = "''PNG0''" and wd = 1280 and ht = 720
      and nw = 1280 and nh = 720 and u = ?u and buf = "''PNG0''" and ?img0.0 = "''PNG0''"]
    u4 w4' g4 n2
  have c4: "handler example_env ?r4 newResponse =
      (http_Error newResponse ''received height option without width argument''
         StatusNotAcceptable, [])"
    by blast
  from h1 h2 h3 a c1 w3 g3 c3 w4 c4 show ?thesis by blast
qed

subsection \<open>A url without a scheme\<close>

text \<open>
  C10, as amended. In default mode a request whose url parses successfully but has no
  scheme (as \<open>google.com\<close> does) is never answered with the 500 of a malformed url: the
  response has status 406 and the capture backend is not called. When the url is not
  blank and the dimensions validate, it is the scheme check that rejects it: the response
  is the one \<open>http.Error\<close> writes for \<open>only http(s) urls are accepted\<close>, and the handler
  stops right after the parse. The malformed-url branch, the one that stops right after
  the parse with status 500, is taken only when \<open>url.Parse\<close> rejects the url, and its body
  is the parse error.
\<close>

theorem schemeless_url_not_acceptable:
  "(\<not> AllowInsecureURIs env \<and>
    url_Parse env (TrimSpace (Get (Query r) ''url'')) = Inr u \<and> Scheme u = [] \<longrightarrow>
      status (fst (handler env r newResponse)) = Some StatusNotAcceptable \<and>
      status (fst (handler env r newResponse)) \<noteq> Some StatusInternalServerError \<and>
      \<not> backend_invoked (snd (handler env r newResponse)) \<and>
      (TrimSpace (Get (Query r) ''url'') \<noteq> [] \<and>
       (dimension (Get (Query r) ''width'') = 0) = (dimension (Get (Query r) ''height'') = 0) \<longrightarrow>
         handler env r newResponse =
           (http_Error newResponse ''only http(s) urls are accepted'' StatusNotAcceptable,
            [ParseCall (TrimSpace (Get (Query r) ''url''))]))) \<and>
   (status (fst (handler env r newResponse)) = Some StatusInternalServerError \<and>
    snd (handler env r newResponse) = [ParseCall (TrimSpace (Get (Query r) ''url''))] \<longrightarrow>
      (\<exists>err. url_Parse env (TrimSpace (Get (Query r) ''url'')) = Inl err \<and>
         body (fst (handler env r newResponse)) = err @ [CHR 0x0A]))"
proof (intro conjI impI)
  assume a: "\<not> AllowInsecureURIs env \<and>
    url_Parse env (TrimSpace (Get (Query r) ''url'')) = Inr u \<and> Scheme u = []"
  then have nohttp: "\<not> HasPrefix (Scheme u) ''http''" by (simp add: HasPrefix_def)
  from a nohttp show st: "status (fst (handler env r newResponse)) = Some StatusNotAcceptable"
    by (auto simp: handler_def Let_def response_simps split: sum.splits if_splits)
  then show "status (fst (handler env r newResponse)) \<noteq> Some StatusInternalServerError"
    by simp
  from a nohttp show "\<not> backend_invoked (snd (handler env r newResponse))"
    by (auto simp: handler_def Let_def backend_invoked_def split: sum.splits if_splits)
  assume "TrimSpace (Get (Query r) ''url'') \<noteq> [] \<and>
    (dimension (Get (Query r) ''width'') = 0) = (dimension (Get (Query r) ''height'') = 0)"
  with a nohttp dimension_nonneg [of "Get (Query r) ''width''"]
    dimension_nonneg [of "Get (Query r) ''height''"]
  show "handler env r newResponse =
      (http_Error newResponse ''only http(s) urls are accepted'' StatusNotAcceptable,
       [ParseCall (TrimSpace (Get (Query r) ''url''))])"
    by (auto simp: handler_def dimension_def Let_def split: sum.splits if_splits)
next
  assume "status (fst (handler env r newResponse)) = Some StatusInternalServerError \<and>
    snd (handler env r newResponse) = [ParseCall (TrimSpace (Get (Query r) ''url''))]"
  then show "\<exists>err. url_Parse env (TrimSpace (Get (Query r) ''url'')) = Inl err \<and>
      body (fst (handler env r newResponse)) = err @ [CHR 0x0A]"
    by (auto simp: handler_def Let_def response_simps split: sum.splits if_splits option.splits)
qed

theorem schemeless_url_not_acceptable_witness:
  "\<not> AllowInsecureURIs example_env \<and>
   url_Parse example_env (TrimSpace (Get (Query (request [(''url'', ''google.com'')])) ''url'')) =
     Inr \<lparr>Scheme = [], Rest = ''google.com''\<rparr> \<and>
   TrimSpace (Get (Query (request [(''url'', ''google.com'')])) ''url'') = ''google.com'' \<and>
   (dimension (Get (Query (request [(''url'', ''google.com'')])) ''width'') = 0) =
     (dimension (Get (Query (request [(''url'', ''google.com'')])) ''height'') = 0) \<and>
   status (fst (handler example_env (request [(''url'', ''google.com'')]) newResponse)) =
     Some StatusNotAcceptable \<and>
   handler example_env (request [(''url'', ''google.com'')]) newResponse =
     (http_Error newResponse ''only http(s) urls are accepted'' StatusNotAcceptable,
      [ParseCall ''google.com'']) \<and>
   status (fst (handler example_env (request [(''url'', '':8080/x'')]) newResponse)) =
     Some StatusInternalServerError \<and>
   snd (handler example_env (request [(''url'', '':8080/x'')]) newResponse) =
     [ParseCall (TrimSpace (Get (Query (request [(''url'', '':8080/x'')])) ''url''))] \<and>
   (\<exists>err. url_Parse example_env (TrimSpace (Get (Query (request [(''url'', '':8080/x'')])) ''url'')) =
      Inl err)"
proof -
  let ?r = "request [(''url'', ''google.com'')]"
  let ?u = "\<lparr>Scheme = [], Rest = ''google.com''\<rparr>"
  let ?r2 = "request [(''url'', '':8080/x'')]"
  have h1: "\<not> AllowInsecureURIs example_env" by (simp add: example_env_def)
  have t: "TrimSpace (Get (Query ?r) ''url'') = ''google.com''" by code_simp
  have h2: "url_Parse example_env (TrimSpace (Get (Query ?r) ''url'')) = Inr ?u" by code_simp
  have h3: "Scheme ?u = []" by simp
  have h4: "(dimension (Get (Query ?r) ''width'') = 0) = (dimension (Get (Query ?r) ''height'') = 0)"
    by code_simp
  have g1: "status (fst (handler example_env ?r2 newResponse)) = Some StatusInternalServerError"
    by code_simp
  have g2: "snd (handler example_env ?r2 newResponse) =
      [ParseCall (TrimSpace (Get (Query ?r2) ''url''))]"
    by code_simp
  from schemeless_url_not_acceptable [of example_env ?r ?u] h1 h2 h3 h4 t
  have a: "status (fst (handler example_env ?r newResponse)) = Some StatusNotAcceptable"
    "handler example_env ?r newResponse =
       (http_Error newResponse ''only http(s) urls are accepted'' StatusNotAcceptable,
        [ParseCall ''google.com''])"
    by (simp_all add: response_simps)
  from schemeless_url_not_acceptable [of example_env ?r2 ?u] g1 g2
  have b: "\<exists>err. url_Parse example_env (TrimSpace (Get (Query ?r2) ''url'')) = Inl err"
    by blast
  from h1 h2 t h4 a g1 g2 b show ?thesis by blast
qed

text \<open>
  C10 as it is stated fails on two requests in default mode whose url parses successfully
  with no scheme. For \<open>url=google.com&width=5\<close> the width check answers first, and for a
  url of one space the blank-url check does: both responses are 406, but neither is the
  rejection of an insecure scheme, and in neither has the url been parsed.
\<close>

theorem schemeless_url_counterexample:
  "AllowInsecureURIs example_env = False \<and>
   url_Parse example_env
     (TrimSpace (Get (Query (request [(''url'', ''google.com''), (''width'', ''5'')])) ''url'')) =
     Inr \<lparr>Scheme = [], Rest = ''google.com''\<rparr> \<and>
   status (fst (handler example_env
     (request [(''url'', ''google.com''), (''width'', ''5'')]) newResponse)) =
     Some StatusNotAcceptable \<and>
   body (fst (handler example_env
     (request [(''url'', ''google.com''), (''width'', ''5'')]) newResponse)) =
     ''received width option without height argument'' @ [CHR 0x0A] \<and>
   body (fst (handler example_env
     (request [(''url'', ''google.com''), (''width'', ''5'')]) newResponse)) \<noteq>
     ''only http(s) urls are accepted'' @ [CHR 0x0A] \<and>
   snd (handler example_env
     (request [(''url'', ''google.com''), (''width'', ''5'')]) newResponse) = [] \<and>
   url_Parse example_env (TrimSpace (Get (Query (request [(''url'', '' '')])) ''url'')) =
     Inr \<lparr>Scheme = [], Rest = []\<rparr> \<and>
   body (fst (handler example_env (request [(''url'', '' '')]) newResponse)) =
     ''url parameter missing. eg ?url=https://google.com'' @ [CHR 0x0A] \<and>
   body (fst (handler example_env (request [(''url'', '' '')]) newResponse)) \<noteq>
     ''only http(s) urls are accepted'' @ [CHR 0x0A]"
  by code_simp

subsection \<open>Two inputs on which the handler departs from its contract\<close>

text \<open>
  C1. The claim is that in default mode only urls of scheme \<open>http\<close> or \<open>https\<close> reach
  the capture backend. The handler tests \<open>strings.HasPrefix(url.Scheme, "http")\<close>, so a
  scheme that merely starts with \<open>http\<close> passes: for \<open>httpx://example.com\<close> in default
  mode the backend is called with scheme \<open>httpx\<close>, and the response is a 200.
\<close>

theorem httpx_scheme_reaches_backend:
  "AllowInsecureURIs example_env = False \<and>
   snd (handler example_env (request [(''url'', ''httpx://example.com'')]) newResponse) =
     [ParseCall ''httpx://example.com'',
      ScreenshotCall \<lparr>Scheme = ''httpx'', Rest = ''//example.com''\<rparr>] \<and>
   Scheme \<lparr>Scheme = ''httpx'', Rest = ''//example.com''\<rparr> \<noteq> ''http'' \<and>
   Scheme \<lparr>Scheme = ''httpx'', Rest = ''//example.com''\<rparr> \<noteq> ''https'' \<and>
   status (fst (handler example_env (request [(''url'', ''httpx://example.com'')]) newResponse)) =
     Some StatusOK"
  by code_simp

text \<open>
  What the scheme check does guarantee in default mode: a url that reaches the backend has
  a scheme that starts with \<open>http\<close>.
\<close>

lemma default_mode_scheme_prefix:
  assumes "\<not> AllowInsecureURIs env"
    and "ScreenshotCall u \<in> set (snd (handler env r newResponse))"
  shows "HasPrefix (Scheme u) ''http''"
  using assms
  by (auto simp: handler_def Let_def split: sum.splits if_splits option.splits)

lemma file_scheme_rejected:
  "status (fst (handler example_env (request [(''url'', ''file:///etc/passwd'')]) newResponse)) =
     Some StatusNotAcceptable \<and>
   body (fst (handler example_env (request [(''url'', ''file:///etc/passwd'')]) newResponse)) =
     ''only http(s) urls are accepted'' @ [CHR 0x0A] \<and>
   snd (handler example_env (request [(''url'', ''file:///etc/passwd'')]) newResponse) =
     [ParseCall ''file:///etc/passwd'']"
  by code_simp

text \<open>
  C2. The claim is that an error response is never preceded by body bytes, a failing JPEG
  encoder included. The handler lets \<open>jpeg.Encode\<close> write to the response itself and calls
  \<open>http.Error\<close> afterwards: when the encoder has written a chunk before it fails, status 200
  and the \<open>image/jpeg\<close> header are already sent, the 500 is dropped, and the error text
  is appended to the partial image.
\<close>

theorem encode_failure_after_partial_write:
  "jpeg_Encode (example_env\<lparr>jpeg_Encode := (\<lambda>img. ([''JFIF''], Some ''write: broken pipe''))\<rparr>) ''PNG0'' =
     ([''JFIF''], Some ''write: broken pipe'') \<and>
   status (fst (handler
       (example_env\<lparr>jpeg_Encode := (\<lambda>img. ([''JFIF''], Some ''write: broken pipe''))\<rparr>)
       (request [(''url'', ''https://example.com''), (''width'', ''1280''), (''height'', ''720'')])
       newResponse)) = Some StatusOK \<and>
   sent_header (fst (handler
       (example_env\<lparr>jpeg_Encode := (\<lambda>img. ([''JFIF''], Some ''write: broken pipe''))\<rparr>)
       (request [(''url'', ''https://example.com''), (''width'', ''1280''), (''height'', ''720'')])
       newResponse)) ''Content-Type'' = Some [''image/jpeg''] \<and>
   body (fst (handler
       (example_env\<lparr>jpeg_Encode := (\<lambda>img. ([''JFIF''], Some ''write: broken pipe''))\<rparr>)
       (request [(''url'', ''https://example.com''), (''width'', ''1280''), (''height'', ''720'')])
       newResponse)) = ''JFIF'' @ ''write: broken pipe'' @ [CHR 0x0A]"
  by code_simp


text \<open>
  Every other way to an error status is clean. The chunks of the encoder go out under
  status 200; so whenever the status sent is not 200, no chunk was written, and the response
  is what one \<open>http.Error\<close> leaves in a new response: the plain-text headers and the
  message alone.
\<close>

lemma foldl_Write_sent:
  "wrote w = Some x \<Longrightarrow> wrote (foldl Write w chunks) = Some x"
  by (induction chunks arbitrary: w) (simp_all add: Write_def)

lemma foldl_Write_status:
  "wrote w = None \<Longrightarrow> chunks \<noteq> [] \<Longrightarrow>
     wrote (foldl Write w chunks) = Some (StatusOK, Header w)"
  by (cases chunks) (simp_all add: foldl_Write_sent Write_def WriteHeader_def)

lemma http_Error_after_jpeg_header:
  "status (http_Error (Header_Set newResponse ''Content-Type'' ''image/jpeg'') e c) = Some c \<and>
   body (http_Error (Header_Set newResponse ''Content-Type'' ''image/jpeg'') e c) = e @ [CHR 0x0A] \<and>
   sent_header (http_Error (Header_Set newResponse ''Content-Type'' ''image/jpeg'') e c)
     ''Content-Type'' = Some [''text/plain; charset=utf-8'']"
  by (simp add: status_def sent_header_def http_Error_def Write_def WriteHeader_def
      Header_Set_def newResponse_def)

lemma status_http_Error_sent:
  "wrote w = Some (c', h) \<Longrightarrow> status (http_Error w e c) = Some c'"
  by (simp add: status_def http_Error_def Write_def WriteHeader_def Header_Set_def)

lemma error_status_clean:
  assumes "status (fst (handler env r newResponse)) = Some c" and "c \<noteq> StatusOK"
  shows "\<exists>msg. body (fst (handler env r newResponse)) = msg @ [CHR 0x0A] \<and>
           sent_header (fst (handler env r newResponse)) ''Content-Type'' =
             Some [''text/plain; charset=utf-8'']"
proof -
  have new: "wrote (Header_Set newResponse ''Content-Type'' ''image/jpeg'') = None"
    by (simp add: Header_Set_def newResponse_def)
  have enc: "\<exists>msg. body (http_Error (foldl Write (Header_Set newResponse ''Content-Type'' ''image/jpeg'') chunks) e StatusInternalServerError) = msg @ [CHR 0x0A] \<and>
           sent_header (http_Error (foldl Write (Header_Set newResponse ''Content-Type'' ''image/jpeg'') chunks) e StatusInternalServerError) ''Content-Type'' =
             Some [''text/plain; charset=utf-8'']"
    if "status (http_Error (foldl Write (Header_Set newResponse ''Content-Type'' ''image/jpeg'') chunks) e StatusInternalServerError) = Some c"
    for chunks e
  proof (cases "chunks = []")
    case True
    then show ?thesis by (simp add: http_Error_after_jpeg_header)
  next
    case False
    from foldl_Write_status [OF new False]
    have "status (http_Error (foldl Write (Header_Set newResponse ''Content-Type'' ''image/jpeg'') chunks) e StatusInternalServerError) = Some StatusOK"
      by (rule status_http_Error_sent)
    with that assms(2) show ?thesis by simp
  qed
  have ok: "status (foldl Write (Header_Set newResponse ''Content-Type'' ''image/jpeg'') chunks) \<noteq> Some c"
    for chunks
  proof (cases "chunks = []")
    case True
    then show ?thesis by (simp add: status_def new)
  next
    case False
    from foldl_Write_status [OF new False] assms(2) show ?thesis by (simp add: status_def)
  qed
  from assms enc ok show ?thesis
    by (auto simp: handler_def Let_def response_simps split: sum.splits if_splits option.splits)
qed


end
